theory Spec2Isabelle
  imports
    Complex_Main
    "HOL-Library.List_Lexorder"
    "HOL-Library.Product_Lexorder"
begin

section \<open>Data model of \<open>build_toefl_vocab.py\<close>\<close>

text \<open>
  A Python \<open>str\<close> is a sequence of Unicode code points, and \<open>len\<close> and \<open><\<close> work on
  code points. A string is therefore a list of code points; the order on strings is the
  lexicographic order on such lists, which is how Python compares two \<open>str\<close> values.
\<close>

type_synonym pystr = "nat list"

definition py :: "string \<Rightarrow> pystr" where
  "py s = map of_char s"

text \<open>The exceptions that the modelled code can raise.\<close>

datatype error = ValueError | KeyError | OverflowError | ZeroDivisionError
  | FileNotFoundError | RuntimeError

text \<open>The dataclass \<open>KajWord\<close> (fields \<open>meaning\<close>, \<open>pos\<close>).\<close>

record KajWord =
  kaj_meaning :: pystr
  kaj_pos :: pystr

text \<open>The dataclass \<open>ECDictWord\<close> (fields \<open>phonetic\<close>, \<open>pos\<close>, \<open>coca_rank\<close>, \<open>tags\<close>,
  \<open>meaning\<close>).\<close>

record ECDictWord =
  phonetic :: pystr
  pos :: pystr
  coca_rank :: "int option"
  tags :: "pystr set"
  meaning :: pystr

type_synonym kaj_dict = "pystr \<rightharpoonup> KajWord"
type_synonym ecdict = "pystr \<rightharpoonup> ECDictWord"
type_synonym subject_tags = "pystr \<rightharpoonup> pystr set"

section \<open>Tier builder\<close>

text \<open>\<open>rank_of\<close>: a dataclass instance is always truthy, so \<open>info.coca_rank if info else None\<close>
  is the rank of the record when the word has one.\<close>

definition rank_of :: "pystr \<Rightarrow> ecdict \<Rightarrow> int option" where
  "rank_of word ecdict_map =
     (case ecdict_map word of None \<Rightarrow> None | Some info \<Rightarrow> coca_rank info)"

text \<open>The dictionary of seven sets returned by \<open>build_layers\<close>.\<close>

record layers =
  layer_a :: "pystr set"
  layer_b :: "pystr set"
  core :: "pystr set"
  layer_c :: "pystr set"
  layer_d :: "pystr set"
  layer_e :: "pystr set"
  full :: "pystr set"

definition build_layers ::
  "kaj_dict \<Rightarrow> ecdict \<Rightarrow> subject_tags \<Rightarrow> pystr set \<Rightarrow> int \<Rightarrow> int \<Rightarrow> layers" where
  "build_layers kaj_map ecdict_map xiaolai_tags awl_words core_coca_max full_coca_max =
     (let kaj_words = dom kaj_map;
          la = {w \<in> kaj_words.
                  case rank_of w ecdict_map of None \<Rightarrow> False
                  | Some r \<Rightarrow> r \<le> core_coca_max};
          lb = kaj_words \<inter> awl_words;
          co = la \<union> lb;
          lc = {w \<in> kaj_words.
                  case rank_of w ecdict_map of None \<Rightarrow> False
                  | Some r \<Rightarrow> core_coca_max < r \<and> r \<le> full_coca_max \<and> w \<notin> co};
          ld = dom xiaolai_tags - co - lc;
          occupied = co \<union> lc \<union> ld;
          le = {w \<in> dom ecdict_map.
                  w \<notin> occupied \<and>
                  (case ecdict_map w of None \<Rightarrow> False
                   | Some info \<Rightarrow> py ''toefl'' \<in> tags info)};
          fu = co \<union> lc \<union> ld \<union> le
      in \<lparr>layer_a = la, layer_b = lb, core = co, layer_c = lc, layer_d = ld,
          layer_e = le, full = fu\<rparr>)"

text \<open>A word is exam-tagged when the frequency mapping has a record for it whose tag set
  contains \<open>toefl\<close>.\<close>

definition exam_tagged :: "ecdict \<Rightarrow> pystr \<Rightarrow> bool" where
  "exam_tagged ecdict_map w =
     (case ecdict_map w of None \<Rightarrow> False | Some info \<Rightarrow> py ''toefl'' \<in> tags info)"

section \<open>Normalizer\<close>

text \<open>The characters that \<open>str.strip()\<close> removes and that \<open>\s\<close> matches in a \<open>str\<close> pattern:
  U+0009..U+000D, U+001C..U+0020, U+0085, U+00A0, U+1680, U+2000..U+200A, U+2028, U+2029,
  U+202F, U+205F, U+3000.\<close>

definition is_space :: "nat \<Rightarrow> bool" where
  "is_space c \<longleftrightarrow>
     (9 \<le> c \<and> c \<le> 13) \<or> (28 \<le> c \<and> c \<le> 32) \<or> c = 133 \<or> c = 160 \<or> c = 5760 \<or>
     (8192 \<le> c \<and> c \<le> 8202) \<or> c = 8232 \<or> c = 8233 \<or> c = 8239 \<or> c = 8287 \<or> c = 12288"

definition strip_chars :: "(nat \<Rightarrow> bool) \<Rightarrow> pystr \<Rightarrow> pystr" where
  "strip_chars P s = rev (dropWhile P (rev (dropWhile P s)))"

definition strip :: "pystr \<Rightarrow> pystr" where
  "strip s = strip_chars is_space s"

text \<open>\<open>re.sub(r"\s+", " ", text)\<close>: every maximal run of whitespace becomes one space.\<close>

function collapse_ws :: "pystr \<Rightarrow> pystr" where
  "collapse_ws [] = []"
| "collapse_ws (c # cs) =
     (if is_space c then 32 # collapse_ws (dropWhile is_space cs) else c # collapse_ws cs)"
  by pat_completeness auto
termination
  by (relation "measure length") (auto simp: length_dropWhile_le le_imp_less_Suc)

definition clean_text :: "pystr \<Rightarrow> pystr" where
  "clean_text text =
     collapse_ws (strip (map (\<lambda>c. if c = 10 then 32 else c)
                          (map (\<lambda>c. if c = 13 then 32 else c) text)))"

text \<open>\<open>normalize_pos\<close>: the separators of \<open>re.split(r"[\s/;,\<dots>]+", pos)\<close> are whitespace,
  \<open>/\<close>, \<open>;\<close>, \<open>,\<close> and the fullwidth comma U+FF0C; element 0 of the split is the text
  before the first separator.\<close>

definition is_pos_sep :: "nat \<Rightarrow> bool" where
  "is_pos_sep c \<longleftrightarrow> is_space c \<or> c = 47 \<or> c = 59 \<or> c = 44 \<or> c = 65292"

definition normalize_pos :: "pystr \<Rightarrow> pystr" where
  "normalize_pos p =
     (let p1 = clean_text p in
      if p1 = [] then []
      else (let token = strip_chars (\<lambda>c. c = 46) (takeWhile (\<lambda>c. \<not> is_pos_sep c) p1)
            in if token = [] then [] else token @ [46]))"

text \<open>
  \<open>parse_coca_rank\<close> calls the builtins \<open>float\<close> and \<open>int\<close>. A Python float is a finite
  real number, an infinity or a NaN. What \<open>float\<close> returns for a string is not part of the
  program and is a parameter \<open>py_float\<close> of the model, \<open>None\<close> standing for the
  \<open>ValueError\<close> that \<open>float\<close> raises on a string it cannot read. \<open>int\<close> of a float
  truncates a finite value toward zero, raises \<open>OverflowError\<close> on an infinity and
  \<open>ValueError\<close> on a NaN.
\<close>

datatype pyfloat = Finite real | PosInf | NegInf | NaN

definition int_of_float :: "pyfloat \<Rightarrow> error + int" where
  "int_of_float x =
     (case x of
        Finite r \<Rightarrow> Inr (if 0 \<le> r then \<lfloor>r\<rfloor> else \<lceil>r\<rceil>)
      | PosInf \<Rightarrow> Inl OverflowError
      | NegInf \<Rightarrow> Inl OverflowError
      | NaN \<Rightarrow> Inl ValueError)"

text \<open>The argument is the \<open>frq\<close> cell of a row: a string (the table is read with
  \<open>dtype=str\<close>), or \<open>None\<close> when the column is missing. Only \<open>ValueError\<close> is caught.\<close>

definition parse_coca_rank :: "(pystr \<Rightarrow> pyfloat option) \<Rightarrow> pystr option \<Rightarrow> error + int option" where
  "parse_coca_rank py_float v =
     (case v of
        None \<Rightarrow> Inr None
      | Some text \<Rightarrow>
          (let s = strip text in
           if s = [] then Inr None
           else (case py_float s of
                   None \<Rightarrow> Inr None
                 | Some x \<Rightarrow>
                     (case int_of_float x of
                        Inl e \<Rightarrow> (if e = ValueError then Inr None else Inl e)
                      | Inr n \<Rightarrow> Inr (if n > 0 then Some n else None)))))"

section \<open>Source loaders: merging duplicates\<close>

definition merge_kaj_word :: "KajWord \<Rightarrow> KajWord \<Rightarrow> KajWord" where
  "merge_kaj_word old new =
     \<lparr>kaj_meaning = (if length (kaj_meaning old) \<ge> length (kaj_meaning new)
                     then kaj_meaning old else kaj_meaning new),
      kaj_pos = (if kaj_pos old \<noteq> [] then kaj_pos old else kaj_pos new)\<rparr>"

text \<open>The body of the loops of \<open>load_kajweb_toefl\<close> over the parsed records: a word that is
  already a key is merged, a new word is stored.\<close>

definition kaj_store :: "kaj_dict \<Rightarrow> pystr \<times> KajWord \<Rightarrow> kaj_dict" where
  "kaj_store kaj_map p =
     (case p of (w, info) \<Rightarrow>
        (case kaj_map w of
           Some old \<Rightarrow> kaj_map(w \<mapsto> merge_kaj_word old info)
         | None \<Rightarrow> kaj_map(w \<mapsto> info)))"

text \<open>\<open>load_kajweb_toefl\<close> on the sequence of pairs that \<open>parse_kaj_entry\<close> returns for the
  objects of the source files, in reading order (finding and reading the files is outside
  the model).\<close>

definition load_kajweb_toefl :: "(pystr \<times> KajWord) list \<Rightarrow> kaj_dict" where
  "load_kajweb_toefl parsed = foldl kaj_store Map.empty parsed"

text \<open>The merge rule of \<open>load_ecdict\<close>, which updates the stored record \<open>old\<close> in place.\<close>

definition ecdict_merge :: "ECDictWord \<Rightarrow> ECDictWord \<Rightarrow> ECDictWord" where
  "ecdict_merge old info =
     \<lparr>phonetic = (if phonetic old = [] \<and> phonetic info \<noteq> [] then phonetic info
                  else phonetic old),
      pos = (if pos old = [] \<and> pos info \<noteq> [] then pos info else pos old),
      coca_rank = (if coca_rank old = None \<and> coca_rank info \<noteq> None then coca_rank info
                   else coca_rank old),
      tags = tags old \<union> tags info,
      meaning = (if meaning old = [] \<and> meaning info \<noteq> [] then meaning info
                 else meaning old)\<rparr>"

definition ecdict_store :: "ecdict \<Rightarrow> pystr \<times> ECDictWord \<Rightarrow> ecdict" where
  "ecdict_store ecdict_map p =
     (case p of (word, info) \<Rightarrow>
        (case ecdict_map word of
           None \<Rightarrow> ecdict_map(word \<mapsto> info)
         | Some old \<Rightarrow> ecdict_map(word \<mapsto> ecdict_merge old info)))"

text \<open>\<open>load_ecdict\<close> on the rows whose word matches the word pattern, each with the record
  built from its normalised cells, in row order.\<close>

definition load_ecdict :: "(pystr \<times> ECDictWord) list \<Rightarrow> ecdict" where
  "load_ecdict rows = foldl ecdict_store Map.empty rows"

section \<open>Ordering\<close>

definition key :: "ecdict \<Rightarrow> pystr \<Rightarrow> int \<times> int \<times> pystr" where
  "key ecdict_map w =
     (case rank_of w ecdict_map of None \<Rightarrow> (1, 10 ^ 9, w) | Some rank \<Rightarrow> (0, rank, w))"

text \<open>\<open>sorted(set(words), key=key)\<close>: Python does not specify the order in which a set
  yields its elements; the model takes them in lexical order. \<open>sorted\<close> is a stable sort
  by key. The keys of different words differ, so the result is the same for every order
  in which the set could yield its elements (lemma \<open>sort_words_by_rank_any_order\<close>).\<close>

definition sort_words_by_rank :: "pystr set \<Rightarrow> ecdict \<Rightarrow> pystr list" where
  "sort_words_by_rank words ecdict_map = sort_key (key ecdict_map) (sorted_list_of_set words)"

text \<open>The order-preserving removal of duplicates used by \<open>main\<close> and \<open>build_tags\<close>: an
  element is kept when it is not in \<open>seen\<close>, and is then added to \<open>seen\<close>.\<close>

fun dedup_seen :: "'a set \<Rightarrow> 'a list \<Rightarrow> 'a list" where
  "dedup_seen seen [] = []"
| "dedup_seen seen (w # ws) =
     (if w \<in> seen then dedup_seen seen ws else w # dedup_seen (insert w seen) ws)"

section \<open>Entry assembler\<close>

definition choose_meaning :: "pystr \<Rightarrow> kaj_dict \<Rightarrow> ecdict \<Rightarrow> pystr" where
  "choose_meaning word kaj_map ecdict_map =
     (case kaj_map word of
        Some kaj \<Rightarrow>
          (if kaj_meaning kaj \<noteq> [] then kaj_meaning kaj
           else (case ecdict_map word of
                   Some ecd \<Rightarrow> (if meaning ecd \<noteq> [] then meaning ecd else [])
                 | None \<Rightarrow> []))
      | None \<Rightarrow>
          (case ecdict_map word of
             Some ecd \<Rightarrow> (if meaning ecd \<noteq> [] then meaning ecd else [])
           | None \<Rightarrow> []))"

definition choose_pos :: "pystr \<Rightarrow> kaj_dict \<Rightarrow> ecdict \<Rightarrow> pystr" where
  "choose_pos word kaj_map ecdict_map =
     (let from_kaj = (case kaj_map word of
                        Some kaj \<Rightarrow> (if kaj_pos kaj \<noteq> [] then normalize_pos (kaj_pos kaj) else [])
                      | None \<Rightarrow> [])
      in case ecdict_map word of
           Some ecd \<Rightarrow> (if pos ecd \<noteq> [] then pos ecd else from_kaj)
         | None \<Rightarrow> from_kaj)"

text \<open>The label appended after \<open>AWL\<close>: the four code points U+5B66 U+672F U+901A U+7528.\<close>

definition academic_label :: pystr where
  "academic_label = [23398, 26415, 36890, 29992]"

definition build_tags :: "pystr \<Rightarrow> pystr set \<Rightarrow> subject_tags \<Rightarrow> ecdict \<Rightarrow> pystr list" where
  "build_tags word awl_words xiaolai_tags ecdict_map =
     (let t0 = (if word \<in> awl_words then [py ''AWL'', academic_label] else []);
          subjects = sorted_list_of_set (case xiaolai_tags word of None \<Rightarrow> {} | Some S \<Rightarrow> S);
          t1 = foldl (\<lambda>ts t. if t \<notin> set ts then ts @ [t] else ts) t0 subjects;
          t2 = (case ecdict_map word of
                  None \<Rightarrow> t1
                | Some ecd \<Rightarrow>
                    (let t3 = (if py ''cet4'' \<in> tags ecd then t1 @ [py ''CET4''] else t1)
                     in if py ''cet6'' \<in> tags ecd then t3 @ [py ''CET6''] else t3))
      in dedup_seen {} t2)"

text \<open>\<open>str(n)\<close> for a natural number: its decimal digits, most significant first.\<close>

function str_nat :: "nat \<Rightarrow> pystr" where
  "str_nat n = (if n < 10 then [48 + n] else str_nat (n div 10) @ [48 + n mod 10])"
  by pat_completeness auto
termination
  by (relation "measure id") auto

declare str_nat.simps [simp del]

text \<open>The format \<open>f"toefl_{idx:0{width}d}"\<close> for \<open>idx \<ge> 0\<close>: the digits of \<open>idx\<close>, padded
  with zeros on the left up to \<open>width\<close> characters.\<close>

definition format_id :: "nat \<Rightarrow> nat \<Rightarrow> pystr" where
  "format_id width idx =
     py ''toefl_'' @ replicate (width - length (str_nat idx)) 48 @ str_nat idx"

record FinalEntry =
  fe_id :: pystr
  fe_word :: pystr
  fe_phonetic :: pystr
  fe_meaning :: pystr
  fe_pos :: pystr
  fe_coca_rank :: "int option"
  fe_tier :: pystr
  fe_tags :: "pystr list"
  fe_example :: pystr

text \<open>The loop of \<open>make_entries\<close> from index \<open>idx\<close> on; \<open>tier_by_word[w]\<close> raises
  \<open>KeyError\<close> for a word that is not a key.\<close>

fun make_entries_from ::
  "nat \<Rightarrow> nat \<Rightarrow> pystr list \<Rightarrow> (pystr \<rightharpoonup> pystr) \<Rightarrow> kaj_dict \<Rightarrow> ecdict \<Rightarrow> pystr set \<Rightarrow>
   subject_tags \<Rightarrow> error + FinalEntry list" where
  "make_entries_from width idx [] tier_by_word kaj_map ecdict_map awl_words xiaolai_tags =
     Inr []"
| "make_entries_from width idx (w # ws) tier_by_word kaj_map ecdict_map awl_words xiaolai_tags =
     (case tier_by_word w of
        None \<Rightarrow> Inl KeyError
      | Some t \<Rightarrow>
          (case make_entries_from width (Suc idx) ws tier_by_word kaj_map ecdict_map
                  awl_words xiaolai_tags of
             Inl e \<Rightarrow> Inl e
           | Inr entries \<Rightarrow>
               Inr (\<lparr>fe_id = format_id width idx,
                     fe_word = w,
                     fe_phonetic = (case ecdict_map w of Some ecd \<Rightarrow> phonetic ecd | None \<Rightarrow> []),
                     fe_meaning = choose_meaning w kaj_map ecdict_map,
                     fe_pos = choose_pos w kaj_map ecdict_map,
                     fe_coca_rank =
                       (case ecdict_map w of Some ecd \<Rightarrow> coca_rank ecd | None \<Rightarrow> None),
                     fe_tier = t,
                     fe_tags = build_tags w awl_words xiaolai_tags ecdict_map,
                     fe_example = []\<rparr> # entries)))"

definition make_entries ::
  "pystr list \<Rightarrow> (pystr \<rightharpoonup> pystr) \<Rightarrow> kaj_dict \<Rightarrow> ecdict \<Rightarrow> pystr set \<Rightarrow> subject_tags \<Rightarrow>
   error + FinalEntry list" where
  "make_entries words_ordered tier_by_word kaj_map ecdict_map awl_words xiaolai_tags =
     (let width = max 4 (length (str_nat (length words_ordered)))
      in make_entries_from width 1 words_ordered tier_by_word kaj_map ecdict_map
           awl_words xiaolai_tags)"

section \<open>Stats reporter\<close>

text \<open>
  The operator \<open>/\<close> on two Python integers returns the IEEE double nearest to the
  quotient (ties go to the even significand). It raises \<open>ZeroDivisionError\<close> for a zero
  divisor and \<open>OverflowError\<close> when the quotient is too large for a double, that is when
  its magnitude is at least \<open>2^1024 - 2^970\<close>, the least value that does not round to a
  finite double. A double is represented by the real number it denotes.

  Around a real \<open>x \<noteq> 0\<close> with \<open>2^e \<le> |x| < 2^(e+1)\<close> the doubles are the multiples of
  \<open>2^(e - 52)\<close>; below \<open>2^(-1022)\<close> (the subnormal range) they are the multiples of
  \<open>2^(-1074)\<close>.
\<close>

definition round_half_even :: "real \<Rightarrow> int" where
  "round_half_even y =
     (let f = \<lfloor>y\<rfloor> in
      if y - of_int f < 1 / 2 then f
      else if 1 / 2 < y - of_int f then f + 1
      else if even f then f else f + 1)"

definition double_ulp :: "real \<Rightarrow> real" where
  "double_ulp x = 2 powr (of_int (max (- 1022) \<lfloor>log 2 \<bar>x\<bar>\<rfloor>) - 52)"

definition round_double :: "real \<Rightarrow> real" where
  "round_double x =
     (if x = 0 then 0 else of_int (round_half_even (x / double_ulp x)) * double_ulp x)"

definition float_overflow_bound :: real where
  "float_overflow_bound = 2 ^ 1024 - 2 ^ 970"

definition py_truediv :: "int \<Rightarrow> int \<Rightarrow> error + real" where
  "py_truediv a b =
     (if b = 0 then Inl ZeroDivisionError
      else if float_overflow_bound \<le> \<bar>real_of_int a / real_of_int b\<bar> then Inl OverflowError
      else Inr (round_double (real_of_int a / real_of_int b)))"

definition calc_ratio :: "int \<Rightarrow> int \<Rightarrow> error + real" where
  "calc_ratio numerator denominator =
     (if denominator \<le> 0 then Inr 0 else py_truediv numerator denominator)"

section \<open>Main flow\<close>

text \<open>The two loops that fill \<open>tier_full\<close>: \<open>tier[w] = label\<close> for every word of a set, and
  \<open>tier.setdefault(w, label)\<close> for every word of a set. Every word of the set gets the same
  label, so the result does not depend on the order in which the set is traversed.\<close>

definition assign_all :: "pystr set \<Rightarrow> pystr \<Rightarrow> (pystr \<rightharpoonup> pystr) \<Rightarrow> (pystr \<rightharpoonup> pystr)" where
  "assign_all S label tier = (\<lambda>w. if w \<in> S then Some label else tier w)"

definition setdefault_all :: "pystr set \<Rightarrow> pystr \<Rightarrow> (pystr \<rightharpoonup> pystr) \<Rightarrow> (pystr \<rightharpoonup> pystr)" where
  "setdefault_all S label tier =
     (\<lambda>w. if w \<in> S then (case tier w of None \<Rightarrow> Some label | Some t \<Rightarrow> Some t) else tier w)"

definition tier_full_of :: "layers \<Rightarrow> (pystr \<rightharpoonup> pystr)" where
  "tier_full_of L =
     setdefault_all (layer_e L) (py ''supplementary'')
       (setdefault_all (layer_d L) (py ''subject'')
          (setdefault_all (layer_c L) (py ''extended'')
             (assign_all (core L) (py ''core'') Map.empty)))"

definition tier_core_of :: "layers \<Rightarrow> (pystr \<rightharpoonup> pystr)" where
  "tier_core_of L = assign_all (core L) (py ''core'') Map.empty"

definition core_order_of :: "layers \<Rightarrow> ecdict \<Rightarrow> pystr list" where
  "core_order_of L ecdict_map = sort_words_by_rank (core L) ecdict_map"

definition full_order_of :: "layers \<Rightarrow> ecdict \<Rightarrow> pystr list" where
  "full_order_of L ecdict_map =
     dedup_seen {}
       (core_order_of L ecdict_map @ sort_words_by_rank (layer_c L) ecdict_map @
        sort_words_by_rank (layer_d L) ecdict_map @ sort_words_by_rank (layer_e L) ecdict_map)"

text \<open>Steps 3 to 5 of \<open>main\<close>: from the four loaded mappings and the two thresholds to the
  two entry lists.\<close>

definition main_assemble ::
  "kaj_dict \<Rightarrow> ecdict \<Rightarrow> subject_tags \<Rightarrow> pystr set \<Rightarrow> int \<Rightarrow> int \<Rightarrow>
   error + (FinalEntry list \<times> FinalEntry list)" where
  "main_assemble kaj_map ecdict_map xiaolai_tags awl_words cmax fmax =
     (let L = build_layers kaj_map ecdict_map xiaolai_tags awl_words cmax fmax;
          tier_full = tier_full_of L;
          tier_core = tier_core_of L;
          core_order = core_order_of L ecdict_map;
          full_order = full_order_of L ecdict_map
      in case make_entries core_order tier_core kaj_map ecdict_map awl_words xiaolai_tags of
           Inl e \<Rightarrow> Inl e
         | Inr core_entries \<Rightarrow>
             (case make_entries full_order tier_full kaj_map ecdict_map awl_words xiaolai_tags of
                Inl e \<Rightarrow> Inl e
              | Inr full_entries \<Rightarrow> Inr (core_entries, full_entries)))"

text \<open>The command line of a run.\<close>

record args =
  download :: bool
  core_coca_max :: int
  full_coca_max :: int
  output_dir :: pystr

text \<open>
  Retrieval, the check that the sources exist, the four loaders and the writers act on the
  file system and the network. Each call is recorded as an event, in call order, and what
  the call returns or raises is given by the environment of the run.
\<close>

datatype event =
    DownloadSources
  | AssertSourcesExist
  | LoadKajwebToefl
  | LoadEcdict
  | LoadXiaolaiSubjectTags
  | LoadAwlWords
  | WriteJson "FinalEntry list"
  | WriteStats

record world =
  download_sources_raises :: "error option"
  assert_sources_exist_raises :: "error option"
  kajweb_loaded :: "error + kaj_dict"
  ecdict_loaded :: "error + ecdict"
  xiaolai_loaded :: "error + subject_tags"
  awl_loaded :: "error + pystr set"

definition main :: "args \<Rightarrow> world \<Rightarrow> event list \<times> (error + nat)" where
  "main a env =
     (if core_coca_max a \<le> 0 \<or> full_coca_max a \<le> 0 then ([], Inl ValueError)
      else if full_coca_max a < core_coca_max a then ([], Inl ValueError)
      else
        (let t1 = (if download a then [DownloadSources] else []) in
         case (if download a then download_sources_raises env else None) of
           Some e \<Rightarrow> (t1, Inl e)
         | None \<Rightarrow>
        (let t2 = t1 @ [AssertSourcesExist] in
         case assert_sources_exist_raises env of
           Some e \<Rightarrow> (t2, Inl e)
         | None \<Rightarrow>
        (let t3 = t2 @ [LoadKajwebToefl] in
         case kajweb_loaded env of
           Inl e \<Rightarrow> (t3, Inl e)
         | Inr kaj_map \<Rightarrow>
        (let t4 = t3 @ [LoadEcdict] in
         case ecdict_loaded env of
           Inl e \<Rightarrow> (t4, Inl e)
         | Inr ecdict_map \<Rightarrow>
        (let t5 = t4 @ [LoadXiaolaiSubjectTags] in
         case xiaolai_loaded env of
           Inl e \<Rightarrow> (t5, Inl e)
         | Inr xiaolai_tags \<Rightarrow>
        (let t6 = t5 @ [LoadAwlWords] in
         case awl_loaded env of
           Inl e \<Rightarrow> (t6, Inl e)
         | Inr awl_words \<Rightarrow>
        (case main_assemble kaj_map ecdict_map xiaolai_tags awl_words
                (core_coca_max a) (full_coca_max a) of
           Inl e \<Rightarrow> (t6, Inl e)
         | Inr (core_entries, full_entries) \<Rightarrow>
             (t6 @ [WriteJson core_entries, WriteJson full_entries, WriteStats],
              Inr 0)))))))))"

text \<open>The events that invoke a loader or the retrieval of the sources.\<close>

definition is_loading :: "event \<Rightarrow> bool" where
  "is_loading ev \<longleftrightarrow>
     ev = DownloadSources \<or> ev = AssertSourcesExist \<or> ev = LoadKajwebToefl \<or>
     ev = LoadEcdict \<or> ev = LoadXiaolaiSubjectTags \<or> ev = LoadAwlWords"

section \<open>Notions used in the statements\<close>

text \<open>The order that the claim on sorting describes: a known rank before an unknown one;
  two known ranks by rank, then lexically; two unknown ranks lexically.\<close>

definition precedes :: "ecdict \<Rightarrow> pystr \<Rightarrow> pystr \<Rightarrow> bool" where
  "precedes ecdict_map a b =
     (case (rank_of a ecdict_map, rank_of b ecdict_map) of
        (Some ra, Some rb) \<Rightarrow> ra < rb \<or> (ra = rb \<and> a < b)
      | (Some ra, None) \<Rightarrow> True
      | (None, Some rb) \<Rightarrow> False
      | (None, None) \<Rightarrow> a < b)"

text \<open>\<open>a\<close> occurs at an earlier position than \<open>b\<close> in the list.\<close>

definition occurs_before :: "'a list \<Rightarrow> 'a \<Rightarrow> 'a \<Rightarrow> bool" where
  "occurs_before xs a b = (\<exists>i j. i < j \<and> j < length xs \<and> xs ! i = a \<and> xs ! j = b)"

text \<open>The label of the first tier, in the priority order core, extended, subject,
  supplementary, whose set contains the word.\<close>

definition first_tier :: "layers \<Rightarrow> pystr \<Rightarrow> pystr option" where
  "first_tier L w =
     (if w \<in> core L then Some (py ''core'')
      else if w \<in> layer_c L then Some (py ''extended'')
      else if w \<in> layer_d L then Some (py ''subject'')
      else if w \<in> layer_e L then Some (py ''supplementary'')
      else None)"

text \<open>Two values of a first-non-empty-wins field do not conflict when they are equal or
  one of them is empty; two headword meanings do not conflict when they are equal or differ
  in length.\<close>

definition kaj_no_conflict :: "KajWord \<Rightarrow> KajWord \<Rightarrow> bool" where
  "kaj_no_conflict a b \<longleftrightarrow>
     (kaj_meaning a = kaj_meaning b \<or> length (kaj_meaning a) \<noteq> length (kaj_meaning b)) \<and>
     (kaj_pos a = kaj_pos b \<or> kaj_pos a = [] \<or> kaj_pos b = [])"

definition ecdict_no_conflict :: "ECDictWord \<Rightarrow> ECDictWord \<Rightarrow> bool" where
  "ecdict_no_conflict a b \<longleftrightarrow>
     (phonetic a = phonetic b \<or> phonetic a = [] \<or> phonetic b = []) \<and>
     (pos a = pos b \<or> pos a = [] \<or> pos b = []) \<and>
     (coca_rank a = coca_rank b \<or> coca_rank a = None \<or> coca_rank b = None) \<and>
     (meaning a = meaning b \<or> meaning a = [] \<or> meaning b = [])"


section \<open>Example data\<close>

text \<open>The scenario of the specification: headwords \<open>abate\<close> and \<open>zephyr\<close>, \<open>abate\<close> of rank
  4200, \<open>zephyr\<close> without a rank and academic, and the exam-tagged word \<open>ecology\<close> that only
  the frequency mapping knows.\<close>

definition ex_kaj :: kaj_dict where
  "ex_kaj = [py ''abate'' \<mapsto> \<lparr>kaj_meaning = [20943, 24369], kaj_pos = py ''v''\<rparr>,
             py ''zephyr'' \<mapsto> \<lparr>kaj_meaning = [21644, 39118], kaj_pos = py ''n''\<rparr>]"

definition ex_ecdict :: ecdict where
  "ex_ecdict =
     [py ''abate'' \<mapsto> \<lparr>phonetic = [], pos = py ''v.'', coca_rank = Some 4200, tags = {},
                       meaning = []\<rparr>,
      py ''zephyr'' \<mapsto> \<lparr>phonetic = [], pos = [], coca_rank = None, tags = {}, meaning = []\<rparr>,
      py ''ecology'' \<mapsto> \<lparr>phonetic = [], pos = [], coca_rank = None, tags = {py ''toefl''},
                         meaning = []\<rparr>]"

definition ex_awl :: "pystr set" where
  "ex_awl = {py ''zephyr''}"

text \<open>The scenario extended by the headword \<open>quark\<close> of rank 9000 and by the subject-tagged
  word \<open>fossil\<close>, which is no headword; the subject label is U+5730 U+8D28.\<close>

definition ex_kaj2 :: kaj_dict where
  "ex_kaj2 = ex_kaj(py ''quark'' \<mapsto> \<lparr>kaj_meaning = [22840, 20811], kaj_pos = py ''n''\<rparr>)"

definition ex_ecdict2 :: ecdict where
  "ex_ecdict2 =
     ex_ecdict(py ''quark'' \<mapsto> \<lparr>phonetic = [], pos = [], coca_rank = Some 9000, tags = {},
                                meaning = []\<rparr>)"

definition ex_xiaolai :: subject_tags where
  "ex_xiaolai = [py ''fossil'' \<mapsto> {[22320, 36136]}]"

text \<open>A frequency mapping with two ranked words and one word without a rank.\<close>

definition ex_ranked :: ecdict where
  "ex_ranked =
     [py ''abate'' \<mapsto> \<lparr>phonetic = [], pos = [], coca_rank = Some 4200, tags = {},
                       meaning = []\<rparr>,
      py ''bee'' \<mapsto> \<lparr>phonetic = [], pos = [], coca_rank = Some 17, tags = {}, meaning = []\<rparr>,
      py ''zephyr'' \<mapsto> \<lparr>phonetic = [], pos = [], coca_rank = None, tags = {}, meaning = []\<rparr>]"

section \<open>Properties of the tier builder\<close>

lemma py_simps: "py [] = []" "py (c # cs) = of_char c # py cs"
  by (simp_all add: py_def)

lemma layer_a_iff:
  "w \<in> layer_a (build_layers K E X A cm fm) \<longleftrightarrow>
     w \<in> dom K \<and> (\<exists>r. rank_of w E = Some r \<and> r \<le> cm)"
  by (auto simp: build_layers_def Let_def split: option.splits)

lemma layer_b_eq: "layer_b (build_layers K E X A cm fm) = dom K \<inter> A"
  by (simp add: build_layers_def Let_def)

lemma core_eq:
  "core (build_layers K E X A cm fm) =
     layer_a (build_layers K E X A cm fm) \<union> layer_b (build_layers K E X A cm fm)"
  by (simp add: build_layers_def Let_def)

lemma layer_c_iff:
  "w \<in> layer_c (build_layers K E X A cm fm) \<longleftrightarrow>
     w \<in> dom K \<and> (\<exists>r. rank_of w E = Some r \<and> cm < r \<and> r \<le> fm) \<and>
     w \<notin> core (build_layers K E X A cm fm)"
  by (auto simp: build_layers_def Let_def split: option.splits)

lemma layer_d_eq:
  "layer_d (build_layers K E X A cm fm) =
     dom X - core (build_layers K E X A cm fm) - layer_c (build_layers K E X A cm fm)"
  by (simp add: build_layers_def Let_def)

lemma layer_e_iff:
  "w \<in> layer_e (build_layers K E X A cm fm) \<longleftrightarrow>
     w \<in> dom E \<and> exam_tagged E w \<and>
     w \<notin> core (build_layers K E X A cm fm) \<and>
     w \<notin> layer_c (build_layers K E X A cm fm) \<and>
     w \<notin> layer_d (build_layers K E X A cm fm)"
  by (auto simp: build_layers_def Let_def exam_tagged_def split: option.splits)

lemma full_eq:
  "full (build_layers K E X A cm fm) =
     core (build_layers K E X A cm fm) \<union> layer_c (build_layers K E X A cm fm) \<union>
     layer_d (build_layers K E X A cm fm) \<union> layer_e (build_layers K E X A cm fm)"
  by (simp add: build_layers_def Let_def)

lemma ex_kaj2_dom: "dom ex_kaj2 = {py ''abate'', py ''zephyr'', py ''quark''}"
  unfolding ex_kaj2_def ex_kaj_def by (simp add: insert_commute)

lemma ex_ecdict2_simps:
  "ex_ecdict2 (py ''abate'') = Some \<lparr>phonetic = [], pos = py ''v.'', coca_rank = Some 4200,
      tags = {}, meaning = []\<rparr>"
  "ex_ecdict2 (py ''zephyr'') = Some \<lparr>phonetic = [], pos = [], coca_rank = None, tags = {},
      meaning = []\<rparr>"
  "ex_ecdict2 (py ''quark'') = Some \<lparr>phonetic = [], pos = [], coca_rank = Some 9000,
      tags = {}, meaning = []\<rparr>"
  "ex_ecdict2 (py ''ecology'') = Some \<lparr>phonetic = [], pos = [], coca_rank = None,
      tags = {py ''toefl''}, meaning = []\<rparr>"
  by (simp_all add: ex_ecdict2_def ex_ecdict_def py_simps)

lemma ex_ecdict2_dom:
  "dom ex_ecdict2 = {py ''abate'', py ''zephyr'', py ''ecology'', py ''quark''}"
  unfolding ex_ecdict2_def ex_ecdict_def by (simp add: insert_commute)

text \<open>
  Claim C1. The tier builder computes the layers as specified, stated on its inputs.
  \<open>layer_a\<close> is the set of headwords whose frequency record has a rank at most
  \<open>core_coca_max\<close>; \<open>layer_b\<close> is the set of headwords in the academic set; \<open>core\<close> is
  their union; \<open>layer_c\<close> is the set of headwords whose frequency record has a rank above
  \<open>core_coca_max\<close> and at most \<open>full_coca_max\<close>, outside \<open>core\<close>; \<open>layer_d\<close> is the set of
  subject-tagged words outside \<open>core\<close> and \<open>layer_c\<close>; \<open>layer_e\<close> is the set of words of
  the frequency mapping whose tag set contains \<open>toefl\<close>, outside \<open>core\<close>, \<open>layer_c\<close> and
  \<open>layer_d\<close>; \<open>full\<close> is the union of \<open>core\<close>, \<open>layer_c\<close>, \<open>layer_d\<close> and \<open>layer_e\<close>.
  Consequently a word without a rank in the frequency mapping that is not academic, not
  subject-tagged and not exam-tagged is in none of the seven sets.
\<close>

theorem build_layers_spec:
  fixes K :: kaj_dict and E :: ecdict and X :: subject_tags and A :: "pystr set"
    and cm fm :: int
  defines "L \<equiv> build_layers K E X A cm fm"
  shows "layer_a L = {w \<in> dom K. \<exists>info r. E w = Some info \<and> coca_rank info = Some r \<and> r \<le> cm}
    \<and> layer_b L = dom K \<inter> A
    \<and> core L = layer_a L \<union> layer_b L
    \<and> layer_c L =
        {w \<in> dom K. \<exists>info r. E w = Some info \<and> coca_rank info = Some r \<and> cm < r \<and> r \<le> fm}
        - core L
    \<and> layer_d L = dom X - core L - layer_c L
    \<and> layer_e L =
        {w. \<exists>info. E w = Some info \<and> py ''toefl'' \<in> tags info} - core L - layer_c L - layer_d L
    \<and> full L = core L \<union> layer_c L \<union> layer_d L \<union> layer_e L
    \<and> (\<forall>w. \<not> (\<exists>info r. E w = Some info \<and> coca_rank info = Some r) \<and> w \<notin> A \<and>
            w \<notin> dom X \<and> \<not> (\<exists>info. E w = Some info \<and> py ''toefl'' \<in> tags info) \<longrightarrow>
           w \<notin> layer_a L \<and> w \<notin> layer_b L \<and> w \<notin> core L \<and> w \<notin> layer_c L \<and>
           w \<notin> layer_d L \<and> w \<notin> layer_e L \<and> w \<notin> full L)"
proof -
  have a: "layer_a L =
      {w \<in> dom K. \<exists>info r. E w = Some info \<and> coca_rank info = Some r \<and> r \<le> cm}"
    unfolding L_def
    by (auto simp: build_layers_def Let_def rank_of_def split: option.splits)
  have b: "layer_b L = dom K \<inter> A"
    unfolding L_def by (rule layer_b_eq)
  have c: "core L = layer_a L \<union> layer_b L"
    unfolding L_def by (rule core_eq)
  have lc: "layer_c L =
      {w \<in> dom K. \<exists>info r. E w = Some info \<and> coca_rank info = Some r \<and> cm < r \<and> r \<le> fm}
      - core L"
    unfolding L_def
    by (auto simp: build_layers_def Let_def rank_of_def split: option.splits)
  have d: "layer_d L = dom X - core L - layer_c L"
    unfolding L_def by (rule layer_d_eq)
  have e: "layer_e L =
      {w. \<exists>info. E w = Some info \<and> py ''toefl'' \<in> tags info} - core L - layer_c L - layer_d L"
    unfolding L_def
    by (auto simp: build_layers_def Let_def split: option.splits)
  have f: "full L = core L \<union> layer_c L \<union> layer_d L \<union> layer_e L"
    unfolding L_def by (rule full_eq)
  have g: "\<forall>w. \<not> (\<exists>info r. E w = Some info \<and> coca_rank info = Some r) \<and> w \<notin> A \<and>
            w \<notin> dom X \<and> \<not> (\<exists>info. E w = Some info \<and> py ''toefl'' \<in> tags info) \<longrightarrow>
           w \<notin> layer_a L \<and> w \<notin> layer_b L \<and> w \<notin> core L \<and> w \<notin> layer_c L \<and>
           w \<notin> layer_d L \<and> w \<notin> layer_e L \<and> w \<notin> full L"
    unfolding f unfolding e d lc c b a by blast
  from a b c lc d e f g show ?thesis by (intro conjI)
qed

text \<open>On the extended scenario with the thresholds 5000 and 15000: \<open>abate\<close> (rank 4200) is
  the one word of \<open>layer_a\<close>, \<open>zephyr\<close> of \<open>layer_b\<close>, \<open>quark\<close> (rank 9000) of \<open>layer_c\<close>,
  \<open>fossil\<close> of \<open>layer_d\<close>, \<open>ecology\<close> of \<open>layer_e\<close>, and \<open>qux\<close> is in no tier.\<close>

theorem build_layers_spec_witness:
  "layer_a (build_layers ex_kaj2 ex_ecdict2 ex_xiaolai ex_awl 5000 15000) = {py ''abate''}
   \<and> layer_b (build_layers ex_kaj2 ex_ecdict2 ex_xiaolai ex_awl 5000 15000) = {py ''zephyr''}
   \<and> core (build_layers ex_kaj2 ex_ecdict2 ex_xiaolai ex_awl 5000 15000)
       = {py ''abate'', py ''zephyr''}
   \<and> layer_c (build_layers ex_kaj2 ex_ecdict2 ex_xiaolai ex_awl 5000 15000) = {py ''quark''}
   \<and> layer_d (build_layers ex_kaj2 ex_ecdict2 ex_xiaolai ex_awl 5000 15000) = {py ''fossil''}
   \<and> layer_e (build_layers ex_kaj2 ex_ecdict2 ex_xiaolai ex_awl 5000 15000) = {py ''ecology''}
   \<and> full (build_layers ex_kaj2 ex_ecdict2 ex_xiaolai ex_awl 5000 15000)
       = {py ''abate'', py ''zephyr'', py ''quark'', py ''fossil'', py ''ecology''}
   \<and> py ''qux'' \<notin> full (build_layers ex_kaj2 ex_ecdict2 ex_xiaolai ex_awl 5000 15000)"
proof -
  let ?L = "build_layers ex_kaj2 ex_ecdict2 ex_xiaolai ex_awl 5000 15000"
  let ?low = "{w \<in> dom ex_kaj2. \<exists>info r. ex_ecdict2 w = Some info \<and> coca_rank info = Some r
      \<and> r \<le> 5000}"
  let ?mid = "{w \<in> dom ex_kaj2. \<exists>info r. ex_ecdict2 w = Some info \<and> coca_rank info = Some r
      \<and> 5000 < r \<and> r \<le> 15000}"
  let ?exam = "{w. \<exists>info. ex_ecdict2 w = Some info \<and> py ''toefl'' \<in> tags info}"
  note t = build_layers_spec [where K = ex_kaj2 and E = ex_ecdict2 and X = ex_xiaolai
      and A = ex_awl and cm = 5000 and fm = 15000]
  from t have ta: "layer_a ?L = ?low" by (elim conjE)
  from t have tb: "layer_b ?L = dom ex_kaj2 \<inter> ex_awl" by (elim conjE)
  from t have tc: "core ?L = layer_a ?L \<union> layer_b ?L" by (elim conjE)
  from t have tlc: "layer_c ?L = ?mid - core ?L" by (elim conjE)
  from t have td: "layer_d ?L = dom ex_xiaolai - core ?L - layer_c ?L" by (elim conjE)
  from t have te: "layer_e ?L = ?exam - core ?L - layer_c ?L - layer_d ?L" by (elim conjE)
  from t have tf: "full ?L = core ?L \<union> layer_c ?L \<union> layer_d ?L \<union> layer_e ?L"
    by (elim conjE)
  have ne: "py ''abate'' \<noteq> py ''zephyr''" "py ''abate'' \<noteq> py ''quark''"
    "py ''zephyr'' \<noteq> py ''quark''" "py ''fossil'' \<noteq> py ''abate''"
    "py ''fossil'' \<noteq> py ''zephyr''" "py ''fossil'' \<noteq> py ''quark''"
    "py ''ecology'' \<noteq> py ''abate''" "py ''ecology'' \<noteq> py ''zephyr''"
    "py ''ecology'' \<noteq> py ''quark''" "py ''ecology'' \<noteq> py ''fossil''"
    "py ''qux'' \<noteq> py ''abate''" "py ''qux'' \<noteq> py ''zephyr''" "py ''qux'' \<noteq> py ''quark''"
    "py ''qux'' \<noteq> py ''fossil''" "py ''qux'' \<noteq> py ''ecology''"
    by (simp_all add: py_simps)
  have low: "?low = {py ''abate''}"
    unfolding ex_kaj2_dom using ne by (auto simp: ex_ecdict2_simps)
  have mid: "?mid = {py ''quark''}"
    unfolding ex_kaj2_dom using ne by (auto simp: ex_ecdict2_simps)
  have exam: "?exam = {py ''ecology''}"
  proof -
    have "?exam \<subseteq> dom ex_ecdict2" by auto
    then have "?exam = {w \<in> dom ex_ecdict2. \<exists>info. ex_ecdict2 w = Some info \<and>
        py ''toefl'' \<in> tags info}" by auto
    also have "\<dots> = {py ''ecology''}"
      unfolding ex_ecdict2_dom using ne by (auto simp: ex_ecdict2_simps)
    finally show ?thesis .
  qed
  have a: "layer_a ?L = {py ''abate''}" unfolding ta by (rule low)
  have "dom ex_kaj2 \<inter> ex_awl = {py ''zephyr''}"
    unfolding ex_kaj2_dom ex_awl_def using ne by auto
  then have b: "layer_b ?L = {py ''zephyr''}" unfolding tb .
  have c: "core ?L = {py ''abate'', py ''zephyr''}" unfolding tc a b by auto
  have lc: "layer_c ?L = {py ''quark''}" unfolding tlc mid c using ne by auto
  have d: "layer_d ?L = {py ''fossil''}"
    unfolding td c lc using ne by (auto simp: ex_xiaolai_def split: if_splits)
  have e: "layer_e ?L = {py ''ecology''}" unfolding te exam c lc d using ne by auto
  have f: "full ?L = {py ''abate'', py ''zephyr'', py ''quark'', py ''fossil'', py ''ecology''}"
    unfolding tf c lc d e by auto
  have q: "py ''qux'' \<notin> full ?L" unfolding f using ne by simp
  from a b c lc d e f q show ?thesis by (intro conjI)
qed

text \<open>
  Claim C2, as stated, asks for \<open>core \<subseteq> full\<close> and for the five layers \<open>layer_a\<close>,
  \<open>layer_b\<close>, \<open>layer_c\<close>, \<open>layer_d\<close>, \<open>layer_e\<close> to be pairwise disjoint. The first two
  layers are not disjoint: a headword of rank at most \<open>core_coca_max\<close> that is also academic
  is in both. Here \<open>abate\<close> (rank 4200) is made academic, with the thresholds 5000 and 15000.
\<close>

theorem layers_a_b_overlap:
  "(0::int) < 5000 \<and> (5000::int) \<le> 15000 \<and>
   layer_a (build_layers ex_kaj ex_ecdict Map.empty {py ''abate''} 5000 15000) \<inter>
   layer_b (build_layers ex_kaj ex_ecdict Map.empty {py ''abate''} 5000 15000) \<noteq> {}"
proof -
  have "py ''abate'' \<in>
      layer_a (build_layers ex_kaj ex_ecdict Map.empty {py ''abate''} 5000 15000)"
    by (simp add: layer_a_iff ex_kaj_def ex_ecdict_def rank_of_def py_simps)
  moreover have "py ''abate'' \<in>
      layer_b (build_layers ex_kaj ex_ecdict Map.empty {py ''abate''} 5000 15000)"
    by (simp add: layer_b_eq ex_kaj_def py_simps)
  ultimately show ?thesis by auto
qed

text \<open>
  Claim C2, amended. For every input, \<open>core\<close> is a subset of \<open>full\<close>, \<open>core\<close> is the union of
  \<open>layer_a\<close> and \<open>layer_b\<close> (which may overlap), and the four sets \<open>core\<close>, \<open>layer_c\<close>,
  \<open>layer_d\<close>, \<open>layer_e\<close> are pairwise disjoint; hence each of \<open>layer_a\<close> and \<open>layer_b\<close> is
  disjoint from \<open>layer_c\<close>, \<open>layer_d\<close> and \<open>layer_e\<close>.
\<close>

theorem build_layers_disjoint:
  fixes K :: kaj_dict and E :: ecdict and X :: subject_tags and A :: "pystr set"
    and cm fm :: int
  defines "L \<equiv> build_layers K E X A cm fm"
  shows "core L \<subseteq> full L
    \<and> core L = layer_a L \<union> layer_b L
    \<and> core L \<inter> layer_c L = {} \<and> core L \<inter> layer_d L = {} \<and> core L \<inter> layer_e L = {}
    \<and> layer_c L \<inter> layer_d L = {} \<and> layer_c L \<inter> layer_e L = {}
    \<and> layer_d L \<inter> layer_e L = {}"
  unfolding L_def by (auto simp: full_eq core_eq layer_c_iff layer_d_eq layer_e_iff)

theorem build_layers_disjoint_witness:
  "core (build_layers ex_kaj ex_ecdict Map.empty ex_awl 5000 15000)
     \<subseteq> full (build_layers ex_kaj ex_ecdict Map.empty ex_awl 5000 15000) \<and>
   core (build_layers ex_kaj ex_ecdict Map.empty ex_awl 5000 15000) \<inter>
     layer_e (build_layers ex_kaj ex_ecdict Map.empty ex_awl 5000 15000) = {}"
  using build_layers_disjoint [where K = ex_kaj and E = ex_ecdict and X = Map.empty
      and A = ex_awl and cm = 5000 and fm = 15000]
  by (elim conjE, intro conjI) assumption+

section \<open>Properties of the duplicate merges\<close>

lemma merge_kaj_word_idem: "merge_kaj_word a a = a"
  by (simp add: merge_kaj_word_def)

lemma ecdict_merge_idem: "ecdict_merge e e = e"
  by (simp add: ecdict_merge_def)

lemma merge_kaj_word_absorb: "merge_kaj_word (merge_kaj_word old a) a = merge_kaj_word old a"
  by (simp add: merge_kaj_word_def)

lemma ecdict_merge_absorb: "ecdict_merge (ecdict_merge old e) e = ecdict_merge old e"
  by (auto simp: ecdict_merge_def)

lemma kaj_store_twice: "kaj_store (kaj_store m r) r = kaj_store m r"
  by (cases r) (auto simp: kaj_store_def merge_kaj_word_absorb merge_kaj_word_idem split: option.splits)

lemma ecdict_store_twice: "ecdict_store (ecdict_store m r) r = ecdict_store m r"
  by (cases r) (auto simp: ecdict_store_def ecdict_merge_absorb ecdict_merge_idem split: option.splits)

lemma first_nonempty_commute:
  "((if a = [] \<and> b \<noteq> [] then b else a) = (if b = [] \<and> a \<noteq> [] then a else b))
     \<longleftrightarrow> (a = b \<or> a = [] \<or> b = [])"
  by auto

lemma first_present_commute:
  "((if a = None \<and> b \<noteq> None then b else a) = (if b = None \<and> a \<noteq> None then a else b))
     \<longleftrightarrow> (a = b \<or> a = None \<or> b = None)"
  by auto

lemma merge_kaj_word_commute_iff:
  "merge_kaj_word a b = merge_kaj_word b a \<longleftrightarrow> kaj_no_conflict a b"
  by (auto simp: merge_kaj_word_def kaj_no_conflict_def split: if_splits)

lemma ecdict_merge_commute_iff:
  "ecdict_merge a b = ecdict_merge b a \<longleftrightarrow> ecdict_no_conflict a b"
  unfolding ecdict_merge_def ecdict_no_conflict_def
  by (simp only: ECDictWord.ext_inject first_nonempty_commute first_present_commute Un_commute
        simp_thms)

text \<open>
  Claim C3, as stated, asks for both merge operations to be commutative and idempotent.
  Neither is commutative: the headword merge keeps the first of two different meanings of
  equal length and the first of two non-empty parts of speech, and the frequency merge
  keeps the first of two different non-empty fields and the first of two ranks.
\<close>

theorem merges_not_commutative:
  "merge_kaj_word \<lparr>kaj_meaning = py ''ab'', kaj_pos = py ''n''\<rparr>
                  \<lparr>kaj_meaning = py ''cd'', kaj_pos = py ''v''\<rparr>
   \<noteq> merge_kaj_word \<lparr>kaj_meaning = py ''cd'', kaj_pos = py ''v''\<rparr>
                    \<lparr>kaj_meaning = py ''ab'', kaj_pos = py ''n''\<rparr>
   \<and> ecdict_merge
       \<lparr>phonetic = py ''/a/'', pos = [], coca_rank = Some 10, tags = {}, meaning = []\<rparr>
       \<lparr>phonetic = py ''/b/'', pos = [], coca_rank = Some 20, tags = {}, meaning = []\<rparr>
   \<noteq> ecdict_merge
       \<lparr>phonetic = py ''/b/'', pos = [], coca_rank = Some 20, tags = {}, meaning = []\<rparr>
       \<lparr>phonetic = py ''/a/'', pos = [], coca_rank = Some 10, tags = {}, meaning = []\<rparr>"
  by (simp add: merge_kaj_word_def ecdict_merge_def py_simps)

text \<open>
  Claim C3, amended. Both merge operations are idempotent, and storing an identical record
  a second time leaves the loaded mapping as it is after the first time, whatever was
  loaded before. The two merges are commutative exactly on pairs of records that do not
  conflict: for headword records, meanings that are equal or of different lengths and
  parts of speech that are equal or one of them empty; for frequency records, phonetic,
  part of speech and meaning that are equal or one of them empty and ranks that are equal
  or one of them absent.
\<close>

theorem merges_idempotent:
  "merge_kaj_word a a = a \<and> ecdict_merge e e = e
   \<and> load_kajweb_toefl (rs @ [r, r]) = load_kajweb_toefl (rs @ [r])
   \<and> load_ecdict (rows @ [row, row]) = load_ecdict (rows @ [row])
   \<and> (merge_kaj_word a b = merge_kaj_word b a \<longleftrightarrow> kaj_no_conflict a b)
   \<and> (ecdict_merge e f = ecdict_merge f e \<longleftrightarrow> ecdict_no_conflict e f)"
  by (simp add: merge_kaj_word_idem ecdict_merge_idem load_kajweb_toefl_def load_ecdict_def
      kaj_store_twice ecdict_store_twice merge_kaj_word_commute_iff ecdict_merge_commute_iff)

theorem merges_idempotent_witness:
  "load_kajweb_toefl
     ([] @ [(py ''abate'', \<lparr>kaj_meaning = py ''ab'', kaj_pos = []\<rparr>),
            (py ''abate'', \<lparr>kaj_meaning = py ''ab'', kaj_pos = []\<rparr>)])
   = load_kajweb_toefl ([] @ [(py ''abate'', \<lparr>kaj_meaning = py ''ab'', kaj_pos = []\<rparr>)])
   \<and> kaj_no_conflict \<lparr>kaj_meaning = py ''ab'', kaj_pos = []\<rparr>
                      \<lparr>kaj_meaning = py ''c'', kaj_pos = py ''n''\<rparr>
   \<and> merge_kaj_word \<lparr>kaj_meaning = py ''ab'', kaj_pos = []\<rparr>
                    \<lparr>kaj_meaning = py ''c'', kaj_pos = py ''n''\<rparr>
     = merge_kaj_word \<lparr>kaj_meaning = py ''c'', kaj_pos = py ''n''\<rparr>
                      \<lparr>kaj_meaning = py ''ab'', kaj_pos = []\<rparr>"
  using merges_idempotent [where a = "\<lparr>kaj_meaning = py ''ab'', kaj_pos = []\<rparr>"
      and b = "\<lparr>kaj_meaning = py ''c'', kaj_pos = py ''n''\<rparr>"
      and rs = "[]" and r = "(py ''abate'', \<lparr>kaj_meaning = py ''ab'', kaj_pos = []\<rparr>)"]
  by (simp add: kaj_no_conflict_def py_simps)

section \<open>Properties of the run configuration check\<close>

text \<open>
  Claim C7. The thresholds are validated before any source is retrieved or loaded: when
  either threshold is zero or negative, or \<open>full_coca_max\<close> is below \<open>core_coca_max\<close>, the
  run ends with \<open>ValueError\<close> and its list of events is empty, so neither the retrieval,
  nor the check of the sources, nor any loader has been invoked.
\<close>

theorem main_rejects_bad_thresholds:
  assumes "core_coca_max a \<le> 0 \<or> full_coca_max a \<le> 0 \<or> full_coca_max a < core_coca_max a"
  shows "main a env = ([], Inl ValueError) \<and> \<not> (\<exists>ev \<in> set (fst (main a env)). is_loading ev)"
proof -
  from assms have "main a env = ([], Inl ValueError)"
    by (auto simp: main_def)
  then show ?thesis by simp
qed

theorem main_rejects_bad_thresholds_witness:
  "main \<lparr>download = True, core_coca_max = 5000, full_coca_max = 100, output_dir = py ''out''\<rparr>
        \<lparr>download_sources_raises = None, assert_sources_exist_raises = None,
         kajweb_loaded = Inr ex_kaj, ecdict_loaded = Inr ex_ecdict,
         xiaolai_loaded = Inr Map.empty, awl_loaded = Inr ex_awl\<rparr>
   = ([], Inl ValueError)"
  using main_rejects_bad_thresholds
    [of "\<lparr>download = True, core_coca_max = 5000, full_coca_max = 100, output_dir = py ''out''\<rparr>"
        "\<lparr>download_sources_raises = None, assert_sources_exist_raises = None,
         kajweb_loaded = Inr ex_kaj, ecdict_loaded = Inr ex_ecdict,
         xiaolai_loaded = Inr Map.empty, awl_loaded = Inr ex_awl\<rparr>"]
  by simp

section \<open>Properties of the rank parser\<close>

lemma parse_coca_rank_positive:
  "parse_coca_rank py_float v = Inr (Some n) \<Longrightarrow> 0 < n"
  by (auto simp: parse_coca_rank_def Let_def split: option.splits sum.splits if_splits)

lemma parse_coca_rank_finite:
  "strip text \<noteq> [] \<Longrightarrow> py_float (strip text) = Some (Finite x) \<Longrightarrow>
   parse_coca_rank py_float (Some text) =
     Inr (if 1 \<le> x then Some \<lfloor>x\<rfloor> else None)"
  by (auto simp: parse_coca_rank_def Let_def int_of_float_def)

lemma parse_coca_rank_unreadable:
  "parse_coca_rank py_float None = Inr None"
  "strip text = [] \<Longrightarrow> parse_coca_rank py_float (Some text) = Inr None"
  "py_float (strip text) = None \<Longrightarrow> parse_coca_rank py_float (Some text) = Inr None"
  "py_float (strip text) = Some NaN \<Longrightarrow> parse_coca_rank py_float (Some text) = Inr None"
  by (simp_all add: parse_coca_rank_def Let_def int_of_float_def)

text \<open>
  Claim C10 says that every rank value that is not a positive number is normalised to
  \<open>None\<close>. The code does so for an empty cell, for a cell that \<open>float\<close> cannot read and for
  a NaN, and it truncates a finite value toward zero. It does not for a cell that \<open>float\<close>
  reads as an infinity (\<open>inf\<close>, \<open>-inf\<close>, \<open>1e999\<close>): \<open>int\<close> then raises \<open>OverflowError\<close>,
  which the handler for \<open>ValueError\<close> does not catch, and the exception leaves
  \<open>parse_coca_rank\<close>.
\<close>

theorem parse_coca_rank_infinity_raises:
  assumes "py_float (py ''-inf'') = Some NegInf"
  shows "parse_coca_rank py_float (Some (py ''-inf'')) = Inl OverflowError"
proof -
  have "strip (py ''-inf'') = py ''-inf''"
    by (simp add: strip_def strip_chars_def py_simps is_space_def)
  moreover have "py ''-inf'' \<noteq> []"
    by (simp add: py_simps)
  ultimately show ?thesis
    using assms by (simp add: parse_coca_rank_def Let_def int_of_float_def)
qed

theorem parse_coca_rank_infinity_raises_witness:
  "parse_coca_rank (\<lambda>s. if s = py ''-inf'' then Some NegInf else None) (Some (py ''-inf''))
   = Inl OverflowError"
  using parse_coca_rank_infinity_raises
    [of "\<lambda>s. if s = py ''-inf'' then Some NegInf else None"]
  by simp

section \<open>Properties of the ordering\<close>

lemma key_inj: "key E a = key E b \<Longrightarrow> a = b"
  by (auto simp: key_def split: option.splits)

lemma precedes_iff_key: "precedes E a b \<longleftrightarrow> key E a < key E b"
  by (auto simp: precedes_def key_def less_prod_def split: option.splits)

lemma strict_sorted_sort_key:
  assumes "distinct xs"
  shows "sorted_wrt (<) (map (key E) (sort_key (key E) xs))"
proof -
  have "inj_on (key E) (set xs)"
    by (auto simp: inj_on_def dest: key_inj)
  with assms have "distinct (map (key E) (sort_key (key E) xs))"
    by (simp add: distinct_map)
  then show ?thesis
    by (simp add: strict_sorted_iff)
qed

lemma sort_key_any_order:
  assumes "distinct xs" "distinct ys" "set xs = set ys"
  shows "sort_key (key E) xs = sort_key (key E) ys"
proof -
  have "map (key E) (sort_key (key E) xs) = map (key E) (sort_key (key E) ys)"
    using assms by (intro strict_sorted_equal strict_sorted_sort_key) simp_all
  moreover have "inj (key E)"
    by (auto simp: inj_on_def dest: key_inj)
  ultimately show ?thesis
    by (simp add: inj_map_eq_map)
qed

lemma sort_words_by_rank_any_order:
  "distinct xs \<Longrightarrow> sort_key (key E) xs = sort_words_by_rank (set xs) E"
  unfolding sort_words_by_rank_def by (rule sort_key_any_order) simp_all

lemma set_sort_words_by_rank:
  "finite words \<Longrightarrow> set (sort_words_by_rank words E) = words"
  by (simp add: sort_words_by_rank_def)

lemma strict_sorted_sort_words_by_rank:
  "sorted_wrt (<) (map (key E) (sort_words_by_rank words E))"
  unfolding sort_words_by_rank_def by (rule strict_sorted_sort_key) simp

lemma sorted_wrt_precedes_sort_words_by_rank:
  "sorted_wrt (precedes E) (sort_words_by_rank words E)"
  using strict_sorted_sort_words_by_rank [of E words]
  by (simp add: sorted_wrt_map precedes_iff_key [abs_def])

lemma distinct_sort_words_by_rank: "distinct (sort_words_by_rank words E)"
  by (simp add: sort_words_by_rank_def)

lemma sorted_wrt_occurs_before:
  assumes s: "sorted_wrt P xs" and a: "a \<in> set xs" and b: "b \<in> set xs"
    and ab: "P a b" and asym: "\<And>x y. P x y \<Longrightarrow> \<not> P y x"
  shows "occurs_before xs a b"
proof -
  from a obtain i where i: "i < length xs" "xs ! i = a" by (auto simp: in_set_conv_nth)
  from b obtain j where j: "j < length xs" "xs ! j = b" by (auto simp: in_set_conv_nth)
  have "i \<noteq> j" using i j ab asym by auto
  moreover have "\<not> j < i"
  proof
    assume "j < i"
    with s i j have "P b a" by (auto simp: sorted_wrt_iff_nth_less)
    with ab asym show False by blast
  qed
  ultimately have "i < j" by simp
  with i j show ?thesis unfolding occurs_before_def by blast
qed

text \<open>
  Claim C4. The order of \<open>sort_words_by_rank\<close> is a strict total order on words: a word
  of known rank comes before every word of unknown rank, two words of known rank are
  ordered by rank and then lexically, two words of unknown rank lexically. The result of
  \<open>sort_words_by_rank\<close> on a finite set lists exactly the words of the set, each once, in
  this order; so of two words of the set with known ranks \<open>r1 < r2\<close>, the one of rank
  \<open>r1\<close> occurs at an earlier position.
\<close>

theorem sort_words_by_rank_total_order:
  assumes "finite words"
  shows "set (sort_words_by_rank words E) = words
    \<and> distinct (sort_words_by_rank words E)
    \<and> sorted_wrt (precedes E) (sort_words_by_rank words E)
    \<and> (\<forall>a b. a \<noteq> b \<longrightarrow> precedes E a b \<or> precedes E b a)
    \<and> (\<forall>a. \<not> precedes E a a)
    \<and> (\<forall>a b c. precedes E a b \<and> precedes E b c \<longrightarrow> precedes E a c)
    \<and> (\<forall>a b r. rank_of a E = Some r \<and> rank_of b E = None \<longrightarrow> precedes E a b)
    \<and> (\<forall>a b r1 r2. rank_of a E = Some r1 \<and> rank_of b E = Some r2 \<longrightarrow>
          (precedes E a b \<longleftrightarrow> r1 < r2 \<or> (r1 = r2 \<and> a < b)))
    \<and> (\<forall>a b. rank_of a E = None \<and> rank_of b E = None \<longrightarrow> (precedes E a b \<longleftrightarrow> a < b))
    \<and> (\<forall>a b r1 r2. a \<in> words \<and> b \<in> words \<and> rank_of a E = Some r1 \<and>
          rank_of b E = Some r2 \<and> r1 < r2 \<longrightarrow>
          occurs_before (sort_words_by_rank words E) a b)"
proof -
  let ?xs = "sort_words_by_rank words E"
  have 1: "set ?xs = words" using assms by (rule set_sort_words_by_rank)
  have 2: "distinct ?xs" by (rule distinct_sort_words_by_rank)
  have 3: "sorted_wrt (precedes E) ?xs" by (rule sorted_wrt_precedes_sort_words_by_rank)
  have 4: "\<forall>a b. a \<noteq> b \<longrightarrow> precedes E a b \<or> precedes E b a"
  proof (intro allI impI)
    fix a b :: pystr
    assume "a \<noteq> b"
    then have "key E a \<noteq> key E b" using key_inj by blast
    then show "precedes E a b \<or> precedes E b a"
      unfolding precedes_iff_key by (rule neqE) simp_all
  qed
  have 5: "\<forall>a. \<not> precedes E a a" by (simp add: precedes_iff_key)
  have 6: "\<forall>a b c. precedes E a b \<and> precedes E b c \<longrightarrow> precedes E a c"
    by (auto simp: precedes_iff_key)
  have 7: "\<forall>a b r. rank_of a E = Some r \<and> rank_of b E = None \<longrightarrow> precedes E a b"
    by (simp add: precedes_def)
  have 8: "\<forall>a b r1 r2. rank_of a E = Some r1 \<and> rank_of b E = Some r2 \<longrightarrow>
          (precedes E a b \<longleftrightarrow> r1 < r2 \<or> (r1 = r2 \<and> a < b))"
    by (simp add: precedes_def)
  have 9: "\<forall>a b. rank_of a E = None \<and> rank_of b E = None \<longrightarrow> (precedes E a b \<longleftrightarrow> a < b)"
    by (simp add: precedes_def)
  have asym: "\<And>x y. precedes E x y \<Longrightarrow> \<not> precedes E y x"
    by (auto simp: precedes_iff_key)
  have 10: "\<forall>a b r1 r2. a \<in> words \<and> b \<in> words \<and> rank_of a E = Some r1 \<and>
          rank_of b E = Some r2 \<and> r1 < r2 \<longrightarrow> occurs_before ?xs a b"
  proof (intro allI impI)
    fix a b r1 r2
    assume h: "a \<in> words \<and> b \<in> words \<and> rank_of a E = Some r1 \<and>
          rank_of b E = Some r2 \<and> r1 < r2"
    then have "precedes E a b" by (simp add: precedes_def)
    with 3 h 1 asym show "occurs_before ?xs a b"
      by (intro sorted_wrt_occurs_before [where P = "precedes E"]) auto
  qed
  from 1 2 3 4 5 6 7 8 9 10 show ?thesis by (intro conjI)
qed

theorem sort_words_by_rank_total_order_witness:
  "finite {py ''abate'', py ''zephyr'', py ''bee''}
   \<and> rank_of (py ''bee'') ex_ranked = Some 17
   \<and> rank_of (py ''abate'') ex_ranked = Some 4200
   \<and> occurs_before (sort_words_by_rank {py ''abate'', py ''zephyr'', py ''bee''} ex_ranked)
        (py ''bee'') (py ''abate'')
   \<and> set (sort_words_by_rank {py ''abate'', py ''zephyr'', py ''bee''} ex_ranked)
       = {py ''abate'', py ''zephyr'', py ''bee''}"
proof -
  let ?W = "{py ''abate'', py ''zephyr'', py ''bee''}"
  have f: "finite ?W" by simp
  have r: "rank_of (py ''bee'') ex_ranked = Some 17"
    "rank_of (py ''abate'') ex_ranked = Some 4200"
    by (simp_all add: rank_of_def ex_ranked_def py_simps)
  note t = sort_words_by_rank_total_order [OF f, of ex_ranked]
  from t have s: "set (sort_words_by_rank ?W ex_ranked) = ?W"
    by (elim conjE)
  from t have "\<forall>a b r1 r2. a \<in> ?W \<and> b \<in> ?W \<and> rank_of a ex_ranked = Some r1 \<and>
          rank_of b ex_ranked = Some r2 \<and> r1 < r2 \<longrightarrow>
          occurs_before (sort_words_by_rank ?W ex_ranked) a b"
    by (elim conjE)
  then have "py ''bee'' \<in> ?W \<and> py ''abate'' \<in> ?W \<and>
      rank_of (py ''bee'') ex_ranked = Some 17 \<and>
      rank_of (py ''abate'') ex_ranked = Some 4200 \<and> (17::int) < 4200 \<longrightarrow>
      occurs_before (sort_words_by_rank ?W ex_ranked) (py ''bee'') (py ''abate'')"
    by blast
  with r have "occurs_before (sort_words_by_rank ?W ex_ranked) (py ''bee'') (py ''abate'')"
    by simp
  with f r s show ?thesis by (intro conjI)
qed

section \<open>Properties of the coverage ratio\<close>





lemma round_double_normal:
  assumes "2 powr of_int e \<le> \<bar>x\<bar>" "\<bar>x\<bar> < 2 powr (of_int e + 1)" "- 1022 \<le> e"
  shows "round_double x =
    of_int (round_half_even (x / 2 powr (of_int e - 52))) * 2 powr (of_int e - 52)"
proof -
  have pos: "0 < \<bar>x\<bar>"
    using assms(1) by (smt (verit) powr_gt_zero)
  then have "\<lfloor>log 2 \<bar>x\<bar>\<rfloor> = e"
    using assms(1,2) by (simp add: floor_log_eq_powr_iff)
  with assms(3) have "double_ulp x = 2 powr (of_int e - 52)"
    by (simp add: double_ulp_def max_def)
  with pos show ?thesis by (simp add: round_double_def)
qed

lemma round_double_subnormal:
  assumes "x \<noteq> 0" "\<bar>x\<bar> < 2 powr (- 1022)"
  shows "round_double x = of_int (round_half_even (x * 2 ^ 1074)) / 2 ^ 1074"
proof -
  have "log 2 \<bar>x\<bar> < - 1022"
    using assms by (simp add: log_less_iff)
  then have "\<lfloor>log 2 \<bar>x\<bar>\<rfloor> \<le> - 1022"
    by (simp add: floor_le_iff)
  then have "max (- 1022) \<lfloor>log 2 \<bar>x\<bar>\<rfloor> = - 1022"
    by (rule max_absorb1)
  then have "double_ulp x = 2 powr (- 1074)"
    unfolding double_ulp_def by simp
  also have "\<dots> = 1 / 2 ^ 1074"
    by (simp add: powr_minus_divide powr_numeral del: powr_neg_numeral)
  finally have u: "double_ulp x = 1 / 2 ^ 1074" .
  define p :: real where "p = 2 ^ 1074"
  have "round_double x = of_int (round_half_even (x / (1 / p))) * (1 / p)"
    using assms(1) unfolding round_double_def u p_def by (simp only: if_False)
  also have "\<dots> = of_int (round_half_even (x * p)) / p"
    by simp
  finally show ?thesis unfolding p_def .
qed



lemma round_double_third: "round_double (1 / 3) = 6004799503160661 / 2 ^ 54"
proof -
  have "round_double (1 / 3) =
      of_int (round_half_even ((1 / 3) / 2 powr (of_int (- 2) - 52))) * 2 powr (of_int (- 2) - 52)"
    by (rule round_double_normal) (simp_all add: powr_minus_divide)
  also have "((1::real) / 3) / 2 powr (of_int (- 2) - 52) = 18014398509481984 / 3"
    by (simp add: powr_minus_divide powr_numeral del: powr_neg_numeral)
  also have "round_half_even ((18014398509481984::real) / 3) = 6004799503160661"
    by (simp add: round_half_even_def Let_def)
  also have "of_int 6004799503160661 * 2 powr (of_int (- 2) - 52) = (6004799503160661::real) / 2 ^ 54"
    by (simp add: powr_minus_divide powr_numeral del: powr_neg_numeral)
  finally show ?thesis .
qed

lemma round_double_tiny: "round_double (1 / 10 ^ 400) = 0"
proof -
  have "round_double (1 / 10 ^ 400) = of_int (round_half_even (1 / 10 ^ 400 * 2 ^ 1074)) / 2 ^ 1074"
    by (rule round_double_subnormal)
      (simp_all add: powr_minus_divide powr_numeral field_simps del: powr_neg_numeral)
  also have "round_half_even ((1::real) / 10 ^ 400 * 2 ^ 1074) = 0"
  proof -
    have "(0::real) \<le> 1 / 10 ^ 400 * 2 ^ 1074" "(1::real) / 10 ^ 400 * 2 ^ 1074 < 1 / 2"
      by (simp_all add: field_simps)
    then have "\<lfloor>(1::real) / 10 ^ 400 * 2 ^ 1074\<rfloor> = 0" "(1::real) / 10 ^ 400 * 2 ^ 1074 < 1 / 2"
      by (simp_all add: floor_eq_iff)
    then show ?thesis by (simp add: round_half_even_def Let_def)
  qed
  finally show ?thesis by simp
qed
lemma calc_ratio_third: "calc_ratio 1 3 = Inr (6004799503160661 / 2 ^ 54)"
proof -
  have "\<bar>real_of_int 1 / real_of_int 3\<bar> < float_overflow_bound"
    by (simp add: float_overflow_bound_def)
  then show ?thesis
    using round_double_third by (simp add: calc_ratio_def py_truediv_def)
qed

lemma calc_ratio_tiny: "calc_ratio 1 (10 ^ 400) = Inr 0"
proof -
  have "(0::real) < 10 ^ 400" by simp
  then have "\<bar>real_of_int 1 / real_of_int (10 ^ 400)\<bar> \<le> 1"
    by simp
  moreover have "1 < float_overflow_bound"
    by (simp add: float_overflow_bound_def)
  ultimately have nov: "\<not> float_overflow_bound \<le> \<bar>real_of_int 1 / real_of_int (10 ^ 400)\<bar>"
    by linarith
  have r: "round_double (real_of_int 1 / real_of_int (10 ^ 400)) = 0"
    using round_double_tiny by simp
  have nz: "(10 ^ 400 :: int) \<noteq> 0" "\<not> (10 ^ 400 :: int) \<le> 0" by simp_all
  show ?thesis
    unfolding calc_ratio_def py_truediv_def
    by (simp only: nz nov r if_False)
qed




section \<open>Properties of the entry assembler\<close>

lemma length_str_nat:
  "length (str_nat n) = (if n < 10 then 1 else Suc (length (str_nat (n div 10))))"
  by (subst str_nat.simps) simp

lemma length_str_nat_pos: "0 < length (str_nat n)"
  by (subst length_str_nat) simp








lemma make_entries_from_nth:
  "make_entries_from width idx ws tier K E A X = Inr es \<Longrightarrow>
   length es = length ws \<and>
   (\<forall>i < length ws. fe_id (es ! i) = format_id width (idx + i) \<and>
      fe_word (es ! i) = ws ! i \<and> tier (ws ! i) = Some (fe_tier (es ! i)))"
proof (induction ws arbitrary: idx es)
  case Nil
  then show ?case by simp
next
  case (Cons w ws)
  from Cons.prems obtain t rest e where
    t: "tier w = Some t" and
    rest: "make_entries_from width (Suc idx) ws tier K E A X = Inr rest" and
    es: "es = e # rest" and
    e: "fe_id e = format_id width idx" "fe_word e = w" "fe_tier e = t"
    by (auto split: option.splits sum.splits)
  from Cons.IH [OF rest] have
    len: "length rest = length ws" and
    nth: "\<And>i. i < length ws \<Longrightarrow> fe_id (rest ! i) = format_id width (Suc idx + i) \<and>
      fe_word (rest ! i) = ws ! i \<and> tier (ws ! i) = Some (fe_tier (rest ! i))"
    by blast+
  show ?case
  proof (intro conjI allI impI)
    show "length es = length (w # ws)" using es len by simp
  next
    fix i assume "i < length (w # ws)"
    then show "fe_id (es ! i) = format_id width (idx + i)"
      using es e nth by (cases i) auto
  next
    fix i assume "i < length (w # ws)"
    then show "fe_word (es ! i) = (w # ws) ! i"
      using es e nth by (cases i) auto
  next
    fix i assume "i < length (w # ws)"
    then show "tier ((w # ws) ! i) = Some (fe_tier (es ! i))"
      using es e t nth by (cases i) auto
  qed
qed


lemma make_entries_words:
  assumes "make_entries ws tier K E A X = Inr es"
  shows "map fe_word es = ws"
proof -
  from assms make_entries_from_nth
  have "length es = length ws \<and> (\<forall>i < length ws. fe_word (es ! i) = ws ! i)"
    unfolding make_entries_def Let_def by blast
  then show ?thesis by (simp add: list_eq_iff_nth_eq)
qed

lemma make_entries_tiers:
  assumes "make_entries ws tier K E A X = Inr es" and "e \<in> set es"
  shows "tier (fe_word e) = Some (fe_tier e)"
proof -
  from assms(1) make_entries_from_nth
  have *: "length es = length ws \<and>
      (\<forall>i < length ws. fe_word (es ! i) = ws ! i \<and> tier (ws ! i) = Some (fe_tier (es ! i)))"
    unfolding make_entries_def Let_def by blast
  from assms(2) obtain i where "i < length es" "es ! i = e"
    by (auto simp: in_set_conv_nth)
  with * show ?thesis by auto
qed





end
